theory Spec2Isabelle
  imports Complex_Main "HOL-Library.Log_Nat"
begin

section \<open>JavaScript values reaching the server actions\<close>

text \<open>
  The server actions receive a \<^verbatim>\<open>FormData\<close>, read three of its entries, turn them
  into primitive values and hand them to a zod schema. The values that occur are
  \<^verbatim>\<open>undefined\<close>, \<^verbatim>\<open>null\<close>, strings and numbers.

  A JavaScript number is an IEEE 754 binary64 value. Every finite one is a rational, so a
  number is modelled as \<open>NaN\<close>, one of the two infinities, or a rational that is a
  binary64 value. The sign of zero is not kept: \<open>-0\<close> and \<open>+0\<close> compare equal in
  JavaScript and nothing here divides by them. Strings are lists of 8-bit code units.
\<close>

datatype number = NaN | PosInfinity | NegInfinity | Finite rat

datatype jsvalue = Undefined | Null | JString string | JNumber number

subsection \<open>Comparison\<close>

text \<open>JavaScript's \<^verbatim>\<open>a <= b\<close> on numbers: false as soon as one side is \<open>NaN\<close>.\<close>

fun js_le :: "number \<Rightarrow> number \<Rightarrow> bool" where
  "js_le NaN _ = False"
| "js_le _ NaN = False"
| "js_le NegInfinity _ = True"
| "js_le _ PosInfinity = True"
| "js_le PosInfinity _ = False"
| "js_le _ NegInfinity = False"
| "js_le (Finite a) (Finite b) = (a \<le> b)"

subsection \<open>Rounding a mathematical value to binary64\<close>

definition pow2 :: "int \<Rightarrow> rat" where
  "pow2 k = (if 0 \<le> k then 2 ^ nat k else 1 / 2 ^ nat (- k))"

text \<open>The integer \<open>e\<close> with \<open>2 ^ e \<le> a < 2 ^ (e + 1)\<close>, for a positive rational \<open>a\<close>.\<close>

definition ilog2 :: "rat \<Rightarrow> int" where
  "ilog2 a =
     (let (n, d) = quotient_of a;
          k = bitlen n - bitlen d
      in if pow2 k \<le> a then k else k - 1)"

text \<open>Round to the nearest integer, a tie going to the even one.\<close>

definition round_half_even :: "rat \<Rightarrow> int" where
  "round_half_even r =
     (let f = \<lfloor>r\<rfloor>; d = r - of_int f
      in if d < 1 / 2 then f
         else if 1 / 2 < d then f + 1
         else if even f then f else f + 1)"

text \<open>
  The Number value for a mathematical value: the nearest binary64 value (53 significant
  bits, exponents from \<open>-1022\<close> to \<open>1023\<close>, subnormals below), ties to even. With
  \<open>e\<close> the exponent of the magnitude, the unit in the last place is \<open>2 ^ q\<close> for
  \<open>q = max e (-1022) - 52\<close> and the significand \<open>m\<close> is the magnitude divided by it,
  rounded. A magnitude of exponent 1024 or more, or one that rounds up to \<open>2 ^ 1024\<close>
  (\<open>q = 971\<close> and \<open>m = 2 ^ 53\<close>), is infinite.
\<close>

definition double_of_rat :: "rat \<Rightarrow> number" where
  "double_of_rat x =
     (if x = 0 then Finite 0
      else
        let a = \<bar>x\<bar>;
            e = ilog2 a
        in if 1024 \<le> e then (if 0 < x then PosInfinity else NegInfinity)
           else
             let q = max e (- 1022) - 52;
                 m = round_half_even (a / pow2 q)
             in if q = 971 \<and> 2 ^ 53 \<le> m
                then (if 0 < x then PosInfinity else NegInfinity)
                else Finite (if 0 < x then of_int m * pow2 q else - (of_int m * pow2 q)))"

subsection \<open>\<^verbatim>\<open>Number(string)\<close>\<close>

text \<open>
  \<^verbatim>\<open>Number(s)\<close> applies StringToNumber (ECMA-262, 7.1.4.1.1): \<open>s\<close> is parsed against
  the grammar \<^verbatim>\<open>StringNumericLiteral\<close>; a string that does not match gives \<open>NaN\<close>.
  Leading and trailing white space and line terminators are skipped (those among the
  code units 0 to 255), an empty literal is \<open>0\<close>.
\<close>

definition isStrWhiteSpaceChar :: "char \<Rightarrow> bool" where
  "isStrWhiteSpaceChar c = (of_char c \<in> {9, 10, 11, 12, 13, 32, 160 :: int})"

definition trimString :: "string \<Rightarrow> string" where
  "trimString s =
     rev (dropWhile isStrWhiteSpaceChar (rev (dropWhile isStrWhiteSpaceChar s)))"

definition digitValue :: "char \<Rightarrow> int option" where
  "digitValue c =
     (let n = of_char c :: int in
      if 48 \<le> n \<and> n \<le> 57 then Some (n - 48)
      else if 97 \<le> n \<and> n \<le> 102 then Some (n - 87)
      else if 65 \<le> n \<and> n \<le> 70 then Some (n - 55)
      else None)"

definition isDigitIn :: "int \<Rightarrow> char \<Rightarrow> bool" where
  "isDigitIn base c = (case digitValue c of None \<Rightarrow> False | Some d \<Rightarrow> d < base)"

definition digitsValue :: "int \<Rightarrow> string \<Rightarrow> int" where
  "digitsValue base ds =
     foldl (\<lambda>acc c. base * acc + (case digitValue c of None \<Rightarrow> 0 | Some d \<Rightarrow> d)) 0 ds"

text \<open>\<^verbatim>\<open>NonDecimalIntegerLiteral\<close> after its prefix: one digit at least, digits only.\<close>

definition nonDecimalDigits :: "int \<Rightarrow> string \<Rightarrow> number" where
  "nonDecimalDigits base ds =
     (if ds \<noteq> [] \<and> list_all (isDigitIn base) ds
      then double_of_rat (of_int (digitsValue base ds)) else NaN)"

text \<open>\<^verbatim>\<open>SignedInteger\<close> of an exponent part.\<close>

definition signedInteger :: "string \<Rightarrow> int option" where
  "signedInteger s =
     (let (neg, ds) =
            (case s of
               c # t \<Rightarrow> if c = CHR ''-'' then (True, t)
                        else if c = CHR ''+'' then (False, t) else (False, s)
             | [] \<Rightarrow> (False, s))
      in if ds \<noteq> [] \<and> list_all (isDigitIn 10) ds
         then Some (if neg then - digitsValue 10 ds else digitsValue 10 ds)
         else None)"

text \<open>
  \<^verbatim>\<open>StrUnsignedDecimalLiteral\<close>: \<^verbatim>\<open>Infinity\<close>, or digits with an optional fraction and
  an optional exponent; there is a digit before or after the point. The result is the
  mathematical value, or \<open>None\<close> for the literal \<^verbatim>\<open>Infinity\<close>.
\<close>

definition strUnsignedDecimalLiteral :: "string \<Rightarrow> (rat option) option" where
  "strUnsignedDecimalLiteral s =
     (if s = ''Infinity'' then Some None
      else
        let ip = takeWhile (isDigitIn 10) s;
            r1 = dropWhile (isDigitIn 10) s;
            (fp, r2) =
              (case r1 of
                 c # t \<Rightarrow> if c = CHR ''.''
                          then (takeWhile (isDigitIn 10) t, dropWhile (isDigitIn 10) t)
                          else ([], r1)
               | [] \<Rightarrow> ([], r1));
            ex =
              (case r2 of
                 [] \<Rightarrow> Some 0
               | c # t \<Rightarrow> if c = CHR ''e'' \<or> c = CHR ''E'' then signedInteger t else None)
        in if ip = [] \<and> fp = [] then None
           else
             (case ex of
                None \<Rightarrow> None
              | Some e \<Rightarrow>
                  Some (Some (of_int (digitsValue 10 (ip @ fp))
                              * (let k = e - int (length fp)
                                 in if 0 \<le> k then 10 ^ nat k else 1 / 10 ^ nat (- k))))))"

definition strDecimalLiteral :: "string \<Rightarrow> number" where
  "strDecimalLiteral s =
     (let (neg, u) =
            (case s of
               c # t \<Rightarrow> if c = CHR ''-'' then (True, t)
                        else if c = CHR ''+'' then (False, t) else (False, s)
             | [] \<Rightarrow> (False, s))
      in case strUnsignedDecimalLiteral u of
           None \<Rightarrow> NaN
         | Some None \<Rightarrow> if neg then NegInfinity else PosInfinity
         | Some (Some mv) \<Rightarrow> double_of_rat (if neg then - mv else mv))"

definition StringToNumber :: "string \<Rightarrow> number" where
  "StringToNumber str =
     (let s = trimString str in
      if s = [] then Finite 0
      else
        (case s of
           z # x # ds \<Rightarrow>
             if z = CHR ''0'' \<and> (x = CHR ''x'' \<or> x = CHR ''X'') then nonDecimalDigits 16 ds
             else if z = CHR ''0'' \<and> (x = CHR ''o'' \<or> x = CHR ''O'') then nonDecimalDigits 8 ds
             else if z = CHR ''0'' \<and> (x = CHR ''b'' \<or> x = CHR ''B'') then nonDecimalDigits 2 ds
             else strDecimalLiteral s
         | _ \<Rightarrow> strDecimalLiteral s))"

text \<open>\<^verbatim>\<open>Number(value)\<close>: ToNumber on the values that occur.\<close>

fun Number :: "jsvalue \<Rightarrow> number" where
  "Number Undefined = NaN"
| "Number Null = Finite 0"
| "Number (JString s) = StringToNumber s"
| "Number (JNumber n) = n"

text \<open>\<^verbatim>\<open>x ?? null\<close>: \<^verbatim>\<open>undefined\<close> and \<^verbatim>\<open>null\<close> become \<^verbatim>\<open>null\<close>.\<close>

fun nullish :: "jsvalue \<Rightarrow> jsvalue" where
  "nullish Undefined = Null"
| "nullish Null = Null"
| "nullish v = v"

text \<open>The name zod gives to the type of a value (\<^verbatim>\<open>getParsedType\<close>).\<close>

fun parsedType :: "jsvalue \<Rightarrow> string" where
  "parsedType Undefined = ''undefined''"
| "parsedType Null = ''null''"
| "parsedType (JString _) = ''string''"
| "parsedType (JNumber n) = (if n = NaN then ''nan'' else ''number'')"

section \<open>Form data\<close>

text \<open>
  An entry of a \<^verbatim>\<open>FormData\<close> is a string or a file; \<^verbatim>\<open>get\<close> returns the first entry
  of a name, or \<^verbatim>\<open>null\<close>. \<^verbatim>\<open>toString()\<close> of a file is \<^verbatim>\<open>[object File]\<close>.
\<close>

datatype FormDataEntryValue = StringEntry string | FileEntry

type_synonym FormData = "(string \<times> FormDataEntryValue) list"

definition formData_get :: "FormData \<Rightarrow> string \<Rightarrow> FormDataEntryValue option" where
  "formData_get formData name = map_of formData name"

fun toString :: "FormDataEntryValue \<Rightarrow> string" where
  "toString (StringEntry s) = s"
| "toString FileEntry = ''[object File]''"

section \<open>The zod schema\<close>

text \<open>
  A field schema takes a value to the message of the issue it raises (\<open>Inl\<close>) or to the
  parsed value (\<open>Inr\<close>); each of the three schemas used raises one issue at most. The
  messages are those of zod 3: with \<^verbatim>\<open>invalid_type_error\<close> given and no
  \<^verbatim>\<open>required_error\<close>, a wrong type gives the custom message unless the value is
  \<^verbatim>\<open>undefined\<close>, which gives \<^verbatim>\<open>Required\<close>; any other issue has its default message.
\<close>

type_synonym fieldSchema = "jsvalue \<Rightarrow> string + jsvalue"

definition invalid_type :: "string option \<Rightarrow> string \<Rightarrow> jsvalue \<Rightarrow> string" where
  "invalid_type invalid_type_error expected v =
     (if v = Undefined then ''Required''
      else case invalid_type_error of
             Some m \<Rightarrow> m
           | None \<Rightarrow> ''Expected '' @ expected @ '', received '' @ parsedType v)"

text \<open>\<^verbatim>\<open>z.string(params)\<close>\<close>

definition z_string :: "string option \<Rightarrow> fieldSchema" where
  "z_string invalid_type_error v =
     (case v of
        JString s \<Rightarrow> Inr v
      | _ \<Rightarrow> Inl (invalid_type invalid_type_error ''string'' v))"

text \<open>
  \<^verbatim>\<open>z.coerce.number().gt(bound, {message})\<close>: the input goes through \<^verbatim>\<open>Number\<close>;
  \<open>NaN\<close> is not a number for zod; the check fails when \<^verbatim>\<open>value <= bound\<close>.
\<close>

definition z_coerce_number_gt :: "number \<Rightarrow> string \<Rightarrow> fieldSchema" where
  "z_coerce_number_gt bound msg v =
     (let n = Number v in
      if n = NaN then Inl (invalid_type None ''number'' (JNumber n))
      else if js_le n bound then Inl msg
      else Inr (JNumber n))"

text \<open>\<^verbatim>\<open>z.enum(values, params)\<close>\<close>

fun join :: "string \<Rightarrow> string list \<Rightarrow> string" where
  "join sep [] = []"
| "join sep [x] = x"
| "join sep (x # y # ys) = x @ sep @ join sep (y # ys)"

definition joinValues :: "string list \<Rightarrow> string" where
  "joinValues vs = join '' | '' (map (\<lambda>v. [CHR 0x27] @ v @ [CHR 0x27]) vs)"

definition z_enum :: "string list \<Rightarrow> string option \<Rightarrow> fieldSchema" where
  "z_enum vs invalid_type_error v =
     (case v of
        JString s \<Rightarrow>
          if s \<in> set vs then Inr v
          else Inl (''Invalid enum value. Expected '' @ joinValues vs @ '', received ''
                    @ [CHR 0x27] @ s @ [CHR 0x27])
      | _ \<Rightarrow> Inl (invalid_type invalid_type_error (joinValues vs) v))"

text \<open>
  An object schema is the list of its keys with their schemas, a JavaScript object the
  list of its keys with their values, both in insertion order.
\<close>

type_synonym objectSchema = "(string \<times> fieldSchema) list"

type_synonym object = "(string \<times> jsvalue) list"

definition formSchema :: objectSchema where
  "formSchema =
     [(''id'', z_string None),
      (''customerId'', z_string (Some ''Please select a customer.'')),
      (''amount'', z_coerce_number_gt (Finite 0) ''Please enter an amount greater than $0.''),
      (''status'', z_enum [''pending'', ''paid''] (Some ''Please select an invoice status.'')),
      (''date'', z_string None)]"

definition omit :: "string list \<Rightarrow> objectSchema \<Rightarrow> objectSchema" where
  "omit ks schema = filter (\<lambda>(k, _). k \<notin> set ks) schema"

definition createInvoiceSchema :: objectSchema where
  "createInvoiceSchema = omit [''id'', ''date''] formSchema"

definition updateInvoiceSchema :: objectSchema where
  "updateInvoiceSchema = omit [''id'', ''date''] formSchema"

text \<open>Reading a property: \<^verbatim>\<open>undefined\<close> when the object has no such key.\<close>

definition property :: "object \<Rightarrow> string \<Rightarrow> jsvalue" where
  "property obj k = (case map_of obj k of None \<Rightarrow> Undefined | Some v \<Rightarrow> v)"

datatype issue = Issue string string

text \<open>
  Every key of the schema is parsed, in order; the issues carry the key as their path
  and are all collected; the data has the parsed values of the schema's keys.
\<close>

fun parseObject :: "objectSchema \<Rightarrow> object \<Rightarrow> issue list \<times> object" where
  "parseObject [] obj = ([], [])"
| "parseObject ((k, schema) # rest) obj =
     (let (issues, data) = parseObject rest obj
      in case schema (property obj k) of
           Inl m \<Rightarrow> (Issue k m # issues, data)
         | Inr v \<Rightarrow> (issues, (k, v) # data))"

datatype SafeParseReturn = SafeParseSuccess object | SafeParseError "issue list"

definition safeParse :: "objectSchema \<Rightarrow> object \<Rightarrow> SafeParseReturn" where
  "safeParse schema obj =
     (case parseObject schema obj of
        ([], data) \<Rightarrow> SafeParseSuccess data
      | (issues, _) \<Rightarrow> SafeParseError issues)"

text \<open>
  \<^verbatim>\<open>error.flatten().fieldErrors\<close>: the messages of the issues, grouped by the first
  element of their path, in order.
\<close>

type_synonym fieldErrors = "(string \<times> string list) list"

fun addFieldError :: "fieldErrors \<Rightarrow> issue \<Rightarrow> fieldErrors" where
  "addFieldError fe (Issue k m) =
     (case map_of fe k of
        None \<Rightarrow> fe @ [(k, [m])]
      | Some _ \<Rightarrow> map (\<lambda>(k', ms). if k' = k then (k', ms @ [m]) else (k', ms)) fe)"

definition flatten_fieldErrors :: "issue list \<Rightarrow> fieldErrors" where
  "flatten_fieldErrors issues = foldl addFieldError [] issues"

text \<open>The messages of the issues at one key, in order.\<close>

fun messages :: "string \<Rightarrow> issue list \<Rightarrow> string list" where
  "messages k [] = []"
| "messages k (Issue k' m # issues) =
     (if k' = k then m # messages k issues else messages k issues)"

section \<open>Persistence and view invalidation\<close>

text \<open>
  A value thrown: an \<^verbatim>\<open>AuthError\<close> of next-auth with its \<^verbatim>\<open>type\<close> and message, or
  any other error with its message.
\<close>

datatype thrown = AuthError string string | Error string

fun error_message :: "thrown \<Rightarrow> string" where
  "error_message (AuthError _ m) = m"
| "error_message (Error m) = m"

text \<open>
  A row of the table \<^verbatim>\<open>invoices\<close>. The three columns the actions write hold the value
  bound into the statement (\<open>Null\<close> is SQL's \<^verbatim>\<open>NULL\<close>); the identifier and the date
  come from the storage.
\<close>

record invoice =
  inv_id :: string
  customer_id :: jsvalue
  amount :: jsvalue
  status :: jsvalue
  date :: nat

text \<open>The three statements of the actions, with their bound parameters in order.\<close>

datatype statement =
    INSERT jsvalue jsvalue jsvalue
  | UPDATE jsvalue jsvalue jsvalue string
  | DELETE string

text \<open>
  What the storage decides during one invocation: whether it rejects the statement (and
  with which error), the identifier it generates and its clock.
\<close>

record driver =
  fault :: "thrown option"
  generated_id :: string
  now :: nat

record world =
  invoices :: "invoice list"
  issued :: "statement list"
  revalidated :: "string list"

fun COALESCE :: "jsvalue \<Rightarrow> jsvalue \<Rightarrow> jsvalue" where
  "COALESCE Null y = y"
| "COALESCE x y = x"

fun exec :: "driver \<Rightarrow> statement \<Rightarrow> invoice list \<Rightarrow> invoice list" where
  "exec d (INSERT c a s) rows =
     rows @ [\<lparr>inv_id = generated_id d, customer_id = c, amount = a, status = s, date = now d\<rparr>]"
| "exec d (UPDATE c a s i) rows =
     map (\<lambda>r. if inv_id r = i
              then r\<lparr>customer_id := COALESCE c (customer_id r),
                     amount := COALESCE a (amount r),
                     status := COALESCE s (status r)\<rparr>
              else r) rows"
| "exec d (DELETE i) rows = filter (\<lambda>r. inv_id r \<noteq> i) rows"

text \<open>
  The tagged template \<^verbatim>\<open>sql\<close>: the statement is handed to the driver, which throws or
  executes it.
\<close>

definition sql :: "driver \<Rightarrow> statement \<Rightarrow> world \<Rightarrow> (thrown + unit) \<times> world" where
  "sql d st w =
     (let w1 = w\<lparr>issued := issued w @ [st]\<rparr>
      in case fault d of
           Some e \<Rightarrow> (Inl e, w1)
         | None \<Rightarrow> (Inr (), w1\<lparr>invoices := exec d st (invoices w1)\<rparr>))"

definition revalidatePath :: "string \<Rightarrow> world \<Rightarrow> world" where
  "revalidatePath p w = w\<lparr>revalidated := revalidated w @ [p]\<rparr>"

section \<open>The invoice actions\<close>

record State =
  errors :: "fieldErrors option"
  message :: "string option"

text \<open>
  The object handed to \<^verbatim>\<open>safeParse\<close> by \<^verbatim>\<open>createInvoice\<close> and \<^verbatim>\<open>updateInvoice\<close>:
  \<^verbatim>\<open>rawCustomer?.toString()\<close>, \<^verbatim>\<open>rawAmount != null ? Number(rawAmount.toString()) : undefined\<close>,
  \<^verbatim>\<open>rawStatus?.toString()\<close>.
\<close>

definition normalizeForm :: "FormData \<Rightarrow> object" where
  "normalizeForm formData =
     (let rawCustomer = formData_get formData ''customerId'';
          rawAmount = formData_get formData ''amount'';
          rawStatus = formData_get formData ''status''
      in [(''customerId'',
             case rawCustomer of None \<Rightarrow> Undefined | Some e \<Rightarrow> JString (toString e)),
          (''amount'',
             case rawAmount of None \<Rightarrow> Undefined
             | Some e \<Rightarrow> JNumber (Number (JString (toString e)))),
          (''status'',
             case rawStatus of None \<Rightarrow> Undefined | Some e \<Rightarrow> JString (toString e))])"

definition createInvoice :: "driver \<Rightarrow> State \<Rightarrow> FormData \<Rightarrow> world \<Rightarrow> State \<times> world" where
  "createInvoice d prevState formData w =
     (case safeParse createInvoiceSchema (normalizeForm formData) of
        SafeParseError issues \<Rightarrow>
          (\<lparr>errors = Some (flatten_fieldErrors issues),
            message = Some ''Missing Fields. Failed to Create Invoice.''\<rparr>, w)
      | SafeParseSuccess data \<Rightarrow>
          (let customerIdParam = nullish (property data ''customerId'');
               amountParam = nullish (property data ''amount'');
               statusParam = nullish (property data ''status'')
           in case sql d (INSERT customerIdParam amountParam statusParam) w of
                (Inr _, w1) \<Rightarrow>
                  (\<lparr>errors = None, message = Some ''Invoice created successfully''\<rparr>,
                   revalidatePath ''/invoices'' w1)
              | (Inl error, w1) \<Rightarrow>
                  (\<lparr>errors = None,
                    message = Some (''Error creating invoice: '' @ error_message error)\<rparr>, w1)))"

definition updateInvoice ::
  "driver \<Rightarrow> string \<Rightarrow> State \<Rightarrow> FormData \<Rightarrow> world \<Rightarrow> State \<times> world" where
  "updateInvoice d ident prevState formData w =
     (if ident = [] then (\<lparr>errors = None, message = Some ''Invoice ID is required.''\<rparr>, w)
      else
        case safeParse updateInvoiceSchema (normalizeForm formData) of
          SafeParseError issues \<Rightarrow>
            (\<lparr>errors = Some (flatten_fieldErrors issues),
              message = Some ''Missing fields. Failed to update invoice.''\<rparr>, w)
        | SafeParseSuccess data \<Rightarrow>
            (let customerIdParam = nullish (property data ''customerId'');
                 amountParam = nullish (property data ''amount'');
                 statusParam = nullish (property data ''status'')
             in case sql d (UPDATE customerIdParam amountParam statusParam ident) w of
                  (Inr _, w1) \<Rightarrow>
                    (\<lparr>errors = None, message = Some ''Invoice updated successfully''\<rparr>,
                     revalidatePath ''/invoices'' w1)
                | (Inl error, w1) \<Rightarrow>
                    (\<lparr>errors = None,
                      message = Some (''Error updating invoice: '' @ error_message error)\<rparr>,
                     w1)))"

definition deleteInvoice :: "driver \<Rightarrow> string \<Rightarrow> world \<Rightarrow> State \<times> world" where
  "deleteInvoice d ident w =
     (if ident = [] then (\<lparr>errors = None, message = Some ''Invoice ID is required.''\<rparr>, w)
      else
        case sql d (DELETE ident) w of
          (Inr _, w1) \<Rightarrow>
            (\<lparr>errors = None, message = Some ''Invoice deleted successfully''\<rparr>,
             revalidatePath ''/invoices'' w1)
        | (Inl error, w1) \<Rightarrow>
            (\<lparr>errors = None,
              message = Some (''Error deleting invoice: '' @ error_message error)\<rparr>, w1))"

section \<open>Authentication\<close>

text \<open>
  \<^verbatim>\<open>signIn\<close> is next-auth's: it returns or throws. \<^verbatim>\<open>authenticate\<close> returns a string
  (\<open>Inr\<close>) or throws again what it caught (\<open>Inl\<close>).
\<close>

definition authenticate ::
  "(string \<Rightarrow> FormData \<Rightarrow> thrown + unit) \<Rightarrow> string option \<Rightarrow> FormData \<Rightarrow> thrown + string" where
  "authenticate signIn prevState formData =
     (case signIn ''credentials'' formData of
        Inr _ \<Rightarrow> Inr ''Success''
      | Inl error \<Rightarrow>
          (case error of
             AuthError type _ \<Rightarrow>
               if type = ''CredentialsSignin'' then Inr ''Invalid credentials.''
               else Inr ''Something went wrong.''
           | _ \<Rightarrow> Inl error))"

section \<open>The dashboard layout\<close>

text \<open>
  \<^verbatim>\<open>redirect\<close> of next/navigation does not return: the layout either redirects or
  returns its tree, in which \<open>Children\<close> is the place of \<^verbatim>\<open>{children}\<close>.
\<close>

datatype 'a element = Div string "'a element list" | SideNav | Children 'a

datatype 'a response = Redirect string | Render "'a element"

definition Layout :: "'s option \<Rightarrow> 'a \<Rightarrow> 'a response" where
  "Layout session children =
     (case session of
        None \<Rightarrow> Redirect ''/login''
      | Some _ \<Rightarrow>
          Render
            (Div ''flex h-screen flex-col md:flex-row md:overflow-hidden''
               [Div ''w-full flex-none md:w-64'' [SideNav],
                Div ''grow p-6 md:overflow-y-auto md:p-12'' [Children children]]))"

text \<open>The wrapped contents that a tree shows.\<close>

fun shown :: "'a element \<Rightarrow> 'a list" where
  "shown (Div _ es) = concat (map shown es)"
| "shown SideNav = []"
| "shown (Children c) = [c]"

section \<open>Properties of the schema\<close>

lemma createInvoiceSchema_eq:
  "createInvoiceSchema =
     [(''customerId'', z_string (Some ''Please select a customer.'')),
      (''amount'', z_coerce_number_gt (Finite 0) ''Please enter an amount greater than $0.''),
      (''status'', z_enum [''pending'', ''paid''] (Some ''Please select an invoice status.''))]"
  by (simp add: createInvoiceSchema_def omit_def formSchema_def)

lemma updateInvoiceSchema_eq: "updateInvoiceSchema = createInvoiceSchema"
  by (simp add: updateInvoiceSchema_def createInvoiceSchema_def)

lemma property_normalizeForm:
  "property (normalizeForm fd) ''customerId'' =
     (case formData_get fd ''customerId'' of None \<Rightarrow> Undefined | Some e \<Rightarrow> JString (toString e))"
  "property (normalizeForm fd) ''amount'' =
     (case formData_get fd ''amount'' of None \<Rightarrow> Undefined
      | Some e \<Rightarrow> JNumber (Number (JString (toString e))))"
  "property (normalizeForm fd) ''status'' =
     (case formData_get fd ''status'' of None \<Rightarrow> Undefined | Some e \<Rightarrow> JString (toString e))"
  by (simp_all add: property_def normalizeForm_def)

text \<open>What parsing an object yields, key by key.\<close>

lemma parseObject_messages:
  "distinct (map fst schema) \<Longrightarrow> map_of schema k = Some sch \<Longrightarrow>
   messages k (fst (parseObject schema obj)) =
     (case sch (property obj k) of Inl m \<Rightarrow> [m] | Inr _ \<Rightarrow> [])"
proof (induction schema)
  case Nil
  then show ?case by simp
next
  case (Cons p schema)
  obtain k' sch' where p: "p = (k', sch')" by (cases p)
  have absent: "messages k' (fst (parseObject schema obj)) = []" if "k' \<notin> fst ` set schema"
    using that
  proof (induction schema)
    case Nil
    then show ?case by simp
  next
    case (Cons q schema)
    then show ?case
      by (cases q) (auto simp: Let_def split: prod.splits sum.splits)
  qed
  show ?case
  proof (cases "k' = k")
    case True
    with Cons.prems p absent show ?thesis
      by (auto simp: Let_def split: prod.splits sum.splits)
  next
    case False
    with Cons p show ?thesis
      by (auto simp: Let_def split: prod.splits sum.splits)
  qed
qed

lemma parseObject_no_issues:
  "fst (parseObject schema obj) = [] \<longleftrightarrow>
     (\<forall>(k, sch) \<in> set schema. \<exists>v. sch (property obj k) = Inr v)"
proof (induction schema)
  case Nil
  then show ?case by simp
next
  case (Cons p schema)
  then show ?case
    by (cases p) (auto simp: Let_def split: prod.splits sum.splits)
qed

lemma parseObject_data:
  "distinct (map fst schema) \<Longrightarrow> map_of schema k = Some sch \<Longrightarrow>
   sch (property obj k) = Inr v \<Longrightarrow>
   property (snd (parseObject schema obj)) k = v"
proof (induction schema)
  case Nil
  then show ?case by simp
next
  case (Cons p schema)
  obtain k' sch' where p: "p = (k', sch')" by (cases p)
  show ?case
  proof (cases "k' = k")
    case True
    with Cons.prems p show ?thesis
      by (auto simp: Let_def property_def split: prod.splits sum.splits)
  next
    case False
    with Cons p show ?thesis
      by (auto simp: Let_def property_def split: prod.splits sum.splits)
  qed
qed

text \<open>What flattening the issues yields, key by key.\<close>

lemma addFieldError_map_of:
  "map_of (addFieldError fe (Issue k' m)) k =
     (if k' = k then Some ((case map_of fe k of None \<Rightarrow> [] | Some ms \<Rightarrow> ms) @ [m])
      else map_of fe k)"
proof -
  have upd: "map_of (map (\<lambda>(k'', ms). if k'' = k' then (k'', ms @ [m]) else (k'', ms)) fe) k =
      (if k' = k then map_option (\<lambda>ms. ms @ [m]) (map_of fe k) else map_of fe k)"
    by (induction fe) auto
  show ?thesis
    by (cases "map_of fe k'") (auto simp: upd map_add_def split: option.splits)
qed

lemma foldl_addFieldError:
  "map_of (foldl addFieldError fe issues) k =
     (if messages k issues = [] then map_of fe k
      else Some ((case map_of fe k of None \<Rightarrow> [] | Some ms \<Rightarrow> ms) @ messages k issues))"
proof (induction issues arbitrary: fe)
  case Nil
  then show ?case by simp
next
  case (Cons i issues)
  obtain k' m where i: "i = Issue k' m" by (cases i)
  show ?case
    unfolding i by (simp add: Cons.IH addFieldError_map_of del: addFieldError.simps)
qed

lemma flatten_map_of:
  "map_of (flatten_fieldErrors issues) k =
     (if messages k issues = [] then None else Some (messages k issues))"
  by (simp add: flatten_fieldErrors_def foldl_addFieldError)

lemma createInvoiceSchema_distinct: "distinct (map fst createInvoiceSchema)"
  by (simp add: createInvoiceSchema_eq)

lemma createInvoiceSchema_map_of:
  "map_of createInvoiceSchema ''customerId'' = Some (z_string (Some ''Please select a customer.''))"
  "map_of createInvoiceSchema ''amount'' =
     Some (z_coerce_number_gt (Finite 0) ''Please enter an amount greater than $0.'')"
  "map_of createInvoiceSchema ''status'' =
     Some (z_enum [''pending'', ''paid''] (Some ''Please select an invoice status.''))"
  by (simp_all add: createInvoiceSchema_eq)

text \<open>A key whose field schema raises an issue has an entry in the field errors.\<close>

lemma safeParse_field_error:
  assumes "map_of createInvoiceSchema k = Some sch" and "sch (property obj k) = Inl m"
  shows "\<exists>issues. safeParse createInvoiceSchema obj = SafeParseError issues
           \<and> map_of (flatten_fieldErrors issues) k = Some [m]"
proof -
  obtain issues data where po: "parseObject createInvoiceSchema obj = (issues, data)"
    by (cases "parseObject createInvoiceSchema obj")
  have ms: "messages k issues = [m]"
    using parseObject_messages [OF createInvoiceSchema_distinct assms(1), of obj] po assms(2)
    by simp
  then have "issues \<noteq> []" by auto
  then have "safeParse createInvoiceSchema obj = SafeParseError issues"
    by (cases issues) (simp_all add: safeParse_def po)
  with ms show ?thesis by (simp add: flatten_map_of)
qed

text \<open>Validated data: each key holds the value its field schema returned.\<close>

lemma safeParse_success:
  assumes "safeParse createInvoiceSchema obj = SafeParseSuccess data"
    and "map_of createInvoiceSchema k = Some sch"
  shows "sch (property obj k) = Inr (property data k)"
proof -
  from assms(1) have po: "parseObject createInvoiceSchema obj = ([], data)"
    by (auto simp: safeParse_def split: prod.splits list.splits)
  then have "fst (parseObject createInvoiceSchema obj) = []" by simp
  then have "\<forall>(k, sch) \<in> set createInvoiceSchema. \<exists>v. sch (property obj k) = Inr v"
    by (simp only: parseObject_no_issues)
  moreover have "(k, sch) \<in> set createInvoiceSchema"
    using assms(2) by (rule map_of_SomeD)
  ultimately obtain v where v: "sch (property obj k) = Inr v" by auto
  from parseObject_data [OF createInvoiceSchema_distinct assms(2) v] po show ?thesis
    by (simp add: v)
qed

lemma z_string_Inr: "z_string p v = Inr u \<Longrightarrow> u = v \<and> (\<exists>s. v = JString s)"
  by (auto simp: z_string_def split: jsvalue.splits)

lemma z_enum_Inr: "z_enum vs p v = Inr u \<Longrightarrow> u = v \<and> (\<exists>s. v = JString s \<and> s \<in> set vs)"
  by (auto simp: z_enum_def split: jsvalue.splits if_splits)

lemma z_coerce_number_gt_Inr:
  "z_coerce_number_gt b msg v = Inr u \<Longrightarrow> u = JNumber (Number v) \<and> Number v \<noteq> NaN \<and> \<not> js_le (Number v) b"
  by (auto simp: z_coerce_number_gt_def Let_def split: if_splits)

section \<open>Missing identifier\<close>

text \<open>
  C5. Called with an empty identifier, \<open>updateInvoice\<close> and \<open>deleteInvoice\<close> return
  exactly the result whose only field is the message \<^verbatim>\<open>Invoice ID is required.\<close>, with
  no field errors, and leave the world as it was: no statement is handed to the driver,
  the table is unchanged and no path is revalidated.
\<close>

theorem empty_identifier_short_circuits:
  "updateInvoice d [] prevState formData w =
     (\<lparr>errors = None, message = Some ''Invoice ID is required.''\<rparr>, w)
   \<and> deleteInvoice d [] w =
     (\<lparr>errors = None, message = Some ''Invoice ID is required.''\<rparr>, w)"
  by (simp add: updateInvoice_def deleteInvoice_def)

theorem empty_identifier_short_circuits_witness:
  "updateInvoice \<lparr>fault = None, generated_id = ''inv-2'', now = 5\<rparr> ''''
     \<lparr>errors = None, message = None\<rparr>
     [(''customerId'', StringEntry ''cust-1''), (''amount'', StringEntry ''12''),
      (''status'', StringEntry ''paid'')]
     \<lparr>invoices = [\<lparr>inv_id = ''inv-1'', customer_id = JString ''cust-0'',
                     amount = JNumber (Finite 3), status = JString ''pending'', date = 1\<rparr>],
      issued = [], revalidated = []\<rparr>
   = (\<lparr>errors = None, message = Some ''Invoice ID is required.''\<rparr>,
      \<lparr>invoices = [\<lparr>inv_id = ''inv-1'', customer_id = JString ''cust-0'',
                      amount = JNumber (Finite 3), status = JString ''pending'', date = 1\<rparr>],
       issued = [], revalidated = []\<rparr>)
   \<and> deleteInvoice \<lparr>fault = None, generated_id = ''inv-2'', now = 5\<rparr> ''''
     \<lparr>invoices = [\<lparr>inv_id = ''inv-1'', customer_id = JString ''cust-0'',
                     amount = JNumber (Finite 3), status = JString ''pending'', date = 1\<rparr>],
      issued = [], revalidated = []\<rparr>
   = (\<lparr>errors = None, message = Some ''Invoice ID is required.''\<rparr>,
      \<lparr>invoices = [\<lparr>inv_id = ''inv-1'', customer_id = JString ''cust-0'',
                      amount = JNumber (Finite 3), status = JString ''pending'', date = 1\<rparr>],
       issued = [], revalidated = []\<rparr>)"
  by (rule empty_identifier_short_circuits)

section \<open>Outcomes of authentication\<close>

text \<open>
  C9. \<open>authenticate\<close> returns \<^verbatim>\<open>Success\<close> when \<open>signIn\<close> returns; when \<open>signIn\<close>
  throws an \<open>AuthError\<close> of type \<^verbatim>\<open>CredentialsSignin\<close> it returns
  \<^verbatim>\<open>Invalid credentials.\<close>; when it throws an \<open>AuthError\<close> of any other type it returns
  \<^verbatim>\<open>Something went wrong.\<close>; anything else that \<open>signIn\<close> throws is thrown again.
\<close>

theorem authenticate_outcomes:
  "(signIn ''credentials'' formData = Inr () \<longrightarrow>
      authenticate signIn prevState formData = Inr ''Success'')
   \<and> (signIn ''credentials'' formData = Inl (AuthError ''CredentialsSignin'' m) \<longrightarrow>
      authenticate signIn prevState formData = Inr ''Invalid credentials.'')
   \<and> (signIn ''credentials'' formData = Inl (AuthError type m) \<and> type \<noteq> ''CredentialsSignin'' \<longrightarrow>
      authenticate signIn prevState formData = Inr ''Something went wrong.'')
   \<and> (signIn ''credentials'' formData = Inl (Error m) \<longrightarrow>
      authenticate signIn prevState formData = Inl (Error m))"
  by (simp add: authenticate_def)

theorem authenticate_outcomes_witness:
  "authenticate (\<lambda>provider formData. Inr ()) None [] = Inr ''Success''
   \<and> authenticate (\<lambda>provider formData. Inl (AuthError ''CredentialsSignin'' ''bad password''))
        None [] = Inr ''Invalid credentials.''
   \<and> authenticate (\<lambda>provider formData. Inl (AuthError ''CallbackRouteError'' ''callback failed''))
        None [] = Inr ''Something went wrong.''
   \<and> authenticate (\<lambda>provider formData. Inl (Error ''NEXT_REDIRECT'')) None []
        = Inl (Error ''NEXT_REDIRECT'')"
  using authenticate_outcomes [where signIn = "\<lambda>provider formData. Inr ()" and formData = "[]"
        and prevState = None]
    authenticate_outcomes
      [where signIn = "\<lambda>provider formData. Inl (AuthError ''CredentialsSignin'' ''bad password'')"
         and formData = "[]" and m = "''bad password''" and prevState = None]
    authenticate_outcomes
      [where signIn = "\<lambda>provider formData. Inl (AuthError ''CallbackRouteError'' ''callback failed'')"
         and formData = "[]" and m = "''callback failed''" and prevState = None
         and type = "''CallbackRouteError''"]
    authenticate_outcomes
      [where signIn = "\<lambda>provider formData. Inl (Error ''NEXT_REDIRECT'')" and formData = "[]"
         and m = "''NEXT_REDIRECT''" and prevState = None]
  by simp

section \<open>The session gate\<close>

text \<open>
  C10. Without a session the layout redirects to \<^verbatim>\<open>/login\<close> and renders nothing; with
  a session it renders a tree that shows the wrapped content, once.
\<close>

theorem Layout_gate:
  "(session = None \<longrightarrow> Layout session children = Redirect ''/login'')
   \<and> (session \<noteq> None \<longrightarrow>
        (\<exists>tree. Layout session children = Render tree \<and> shown tree = [children]))"
  by (cases session) (simp_all add: Layout_def)

theorem Layout_gate_witness:
  "Layout (None :: string option) ''invoices page'' = Redirect ''/login''
   \<and> (\<exists>tree. Layout (Some ''user-1'') ''invoices page'' = Render tree
         \<and> shown tree = [''invoices page''])"
  using Layout_gate [of "None :: string option" "''invoices page''"]
    Layout_gate [of "Some ''user-1''" "''invoices page''"]
  by simp

section \<open>Rejected input\<close>

text \<open>An issue at a key of the schema: both handlers return its message and stop.\<close>

lemma createInvoice_field_error:
  assumes "map_of createInvoiceSchema k = Some sch"
    and "sch (property (normalizeForm formData) k) = Inl m"
  shows "\<exists>fe. createInvoice d prevState formData w =
           (\<lparr>errors = Some fe, message = Some ''Missing Fields. Failed to Create Invoice.''\<rparr>, w)
         \<and> map_of fe k = Some [m]"
proof -
  from safeParse_field_error [OF assms] obtain issues where
    "safeParse createInvoiceSchema (normalizeForm formData) = SafeParseError issues"
    "map_of (flatten_fieldErrors issues) k = Some [m]"
    by blast
  then show ?thesis by (simp add: createInvoice_def)
qed

lemma updateInvoice_field_error:
  assumes "map_of createInvoiceSchema k = Some sch"
    and "sch (property (normalizeForm formData) k) = Inl m"
    and "ident \<noteq> []"
  shows "\<exists>fe. updateInvoice d ident prevState formData w =
           (\<lparr>errors = Some fe, message = Some ''Missing fields. Failed to update invoice.''\<rparr>, w)
         \<and> map_of fe k = Some [m]"
proof -
  from safeParse_field_error [OF assms(1,2)] obtain issues where
    "safeParse createInvoiceSchema (normalizeForm formData) = SafeParseError issues"
    "map_of (flatten_fieldErrors issues) k = Some [m]"
    by blast
  with assms(3) show ?thesis by (simp add: updateInvoice_def updateInvoiceSchema_eq)
qed

lemma amount_issue:
  assumes "case formData_get formData ''amount'' of
             None \<Rightarrow> True
           | Some e \<Rightarrow> Number (JString (toString e)) = NaN
                       \<or> js_le (Number (JString (toString e))) (Finite 0)"
  shows "\<exists>m. z_coerce_number_gt (Finite 0) msg (property (normalizeForm formData) ''amount'') = Inl m"
  using assms
  by (auto simp: property_normalizeForm z_coerce_number_gt_def Let_def split: option.splits)

lemma status_issue:
  assumes "case formData_get formData ''status'' of
             None \<Rightarrow> True
           | Some e \<Rightarrow> toString e \<noteq> ''pending'' \<and> toString e \<noteq> ''paid''"
  shows "\<exists>m. z_enum [''pending'', ''paid''] p (property (normalizeForm formData) ''status'') = Inl m"
  using assms
  by (auto simp: property_normalizeForm z_enum_def split: option.splits)

text \<open>
  C1, as the code has it. When the amount entry of the form is missing, or its string
  is taken by \<^verbatim>\<open>Number\<close> to \<open>NaN\<close> or to a number \<^verbatim>\<open><= 0\<close>, \<open>createInvoice\<close> returns
  field errors with an entry for \<^verbatim>\<open>amount\<close> and leaves the world as it was (no statement
  handed to the driver); so does \<open>updateInvoice\<close> when its identifier is not empty.
\<close>

theorem invalid_amount_rejected:
  assumes "case formData_get formData ''amount'' of
             None \<Rightarrow> True
           | Some e \<Rightarrow> Number (JString (toString e)) = NaN
                       \<or> js_le (Number (JString (toString e))) (Finite 0)"
  shows "(\<exists>fe ms. createInvoice d prevState formData w =
            (\<lparr>errors = Some fe, message = Some ''Missing Fields. Failed to Create Invoice.''\<rparr>, w)
          \<and> map_of fe ''amount'' = Some ms \<and> ms \<noteq> [])
       \<and> (ident \<noteq> [] \<longrightarrow>
           (\<exists>fe ms. updateInvoice d ident prevState formData w =
              (\<lparr>errors = Some fe, message = Some ''Missing fields. Failed to update invoice.''\<rparr>, w)
            \<and> map_of fe ''amount'' = Some ms \<and> ms \<noteq> []))"
proof -
  from amount_issue [OF assms] obtain m where
    m: "z_coerce_number_gt (Finite 0) ''Please enter an amount greater than $0.''
          (property (normalizeForm formData) ''amount'') = Inl m"
    by blast
  from createInvoice_field_error [OF createInvoiceSchema_map_of(2) m]
  have create: "\<exists>fe ms. createInvoice d prevState formData w =
            (\<lparr>errors = Some fe, message = Some ''Missing Fields. Failed to Create Invoice.''\<rparr>, w)
          \<and> map_of fe ''amount'' = Some ms \<and> ms \<noteq> []"
    by blast
  have update: "\<exists>fe ms. updateInvoice d ident prevState formData w =
              (\<lparr>errors = Some fe, message = Some ''Missing fields. Failed to update invoice.''\<rparr>, w)
            \<and> map_of fe ''amount'' = Some ms \<and> ms \<noteq> []" if "ident \<noteq> []"
    using updateInvoice_field_error [OF createInvoiceSchema_map_of(2) m that] by blast
  from create update show ?thesis by blast
qed

theorem invalid_amount_rejected_witness:
  "js_le (Number (JString ''-5'')) (Finite 0)
   \<and> (\<exists>fe ms. createInvoice \<lparr>fault = None, generated_id = ''inv-2'', now = 5\<rparr>
          \<lparr>errors = None, message = None\<rparr>
          [(''customerId'', StringEntry ''cust-1''), (''amount'', StringEntry ''-5''),
           (''status'', StringEntry ''paid'')]
          \<lparr>invoices = [], issued = [], revalidated = []\<rparr> =
         (\<lparr>errors = Some fe, message = Some ''Missing Fields. Failed to Create Invoice.''\<rparr>,
          \<lparr>invoices = [], issued = [], revalidated = []\<rparr>)
        \<and> map_of fe ''amount'' = Some ms \<and> ms \<noteq> [])
   \<and> (\<exists>fe ms. updateInvoice \<lparr>fault = None, generated_id = ''inv-2'', now = 5\<rparr> ''inv-1''
          \<lparr>errors = None, message = None\<rparr>
          [(''customerId'', StringEntry ''cust-1''), (''amount'', StringEntry ''-5''),
           (''status'', StringEntry ''paid'')]
          \<lparr>invoices = [], issued = [], revalidated = []\<rparr> =
         (\<lparr>errors = Some fe, message = Some ''Missing fields. Failed to update invoice.''\<rparr>,
          \<lparr>invoices = [], issued = [], revalidated = []\<rparr>)
        \<and> map_of fe ''amount'' = Some ms \<and> ms \<noteq> [])"
proof -
  have n: "js_le (Number (JString ''-5'')) (Finite 0)"
    by code_simp
  then have h: "case formData_get
             [(''customerId'', StringEntry ''cust-1''), (''amount'', StringEntry ''-5''),
              (''status'', StringEntry ''paid'')] ''amount'' of
             None \<Rightarrow> True
           | Some e \<Rightarrow> Number (JString (toString e)) = NaN
                       \<or> js_le (Number (JString (toString e))) (Finite 0)"
    by (simp add: formData_get_def)
  have i: "''inv-1'' \<noteq> []" by simp
  from invalid_amount_rejected [OF h, of _ _ _ "''inv-1''"] n i show ?thesis
    by blast
qed

text \<open>
  The claim as worded fails for \<open>updateInvoice\<close> with an empty identifier: the amount
  \<^verbatim>\<open>0\<close> is not greater than zero, and the result has no field errors.
\<close>

theorem invalid_amount_empty_identifier_counterexample:
  "js_le (Number (JString ''0'')) (Finite 0)
   \<and> updateInvoice \<lparr>fault = None, generated_id = ''inv-2'', now = 5\<rparr> ''''
       \<lparr>errors = None, message = None\<rparr>
       [(''customerId'', StringEntry ''cust-1''), (''amount'', StringEntry ''0''),
        (''status'', StringEntry ''paid'')]
       \<lparr>invoices = [], issued = [], revalidated = []\<rparr>
     = (\<lparr>errors = None, message = Some ''Invoice ID is required.''\<rparr>,
        \<lparr>invoices = [], issued = [], revalidated = []\<rparr>)"
proof
  show "js_le (Number (JString ''0'')) (Finite 0)"
    by code_simp
  show "updateInvoice \<lparr>fault = None, generated_id = ''inv-2'', now = 5\<rparr> ''''
       \<lparr>errors = None, message = None\<rparr>
       [(''customerId'', StringEntry ''cust-1''), (''amount'', StringEntry ''0''),
        (''status'', StringEntry ''paid'')]
       \<lparr>invoices = [], issued = [], revalidated = []\<rparr>
     = (\<lparr>errors = None, message = Some ''Invoice ID is required.''\<rparr>,
        \<lparr>invoices = [], issued = [], revalidated = []\<rparr>)"
    by (simp add: updateInvoice_def)
qed

text \<open>
  C8, as the code has it. When the status entry of the form is missing or is not exactly
  \<^verbatim>\<open>pending\<close> or \<^verbatim>\<open>paid\<close>, \<open>createInvoice\<close> returns field errors with an entry for
  \<^verbatim>\<open>status\<close>, and so does \<open>updateInvoice\<close> when its identifier is not empty.
\<close>

theorem invalid_status_rejected:
  assumes "case formData_get formData ''status'' of
             None \<Rightarrow> True
           | Some e \<Rightarrow> toString e \<noteq> ''pending'' \<and> toString e \<noteq> ''paid''"
  shows "(\<exists>fe ms. createInvoice d prevState formData w =
            (\<lparr>errors = Some fe, message = Some ''Missing Fields. Failed to Create Invoice.''\<rparr>, w)
          \<and> map_of fe ''status'' = Some ms \<and> ms \<noteq> [])
       \<and> (ident \<noteq> [] \<longrightarrow>
           (\<exists>fe ms. updateInvoice d ident prevState formData w =
              (\<lparr>errors = Some fe, message = Some ''Missing fields. Failed to update invoice.''\<rparr>, w)
            \<and> map_of fe ''status'' = Some ms \<and> ms \<noteq> []))"
proof -
  from status_issue [OF assms] obtain m where
    m: "z_enum [''pending'', ''paid''] (Some ''Please select an invoice status.'')
          (property (normalizeForm formData) ''status'') = Inl m"
    by blast
  from createInvoice_field_error [OF createInvoiceSchema_map_of(3) m]
  have create: "\<exists>fe ms. createInvoice d prevState formData w =
            (\<lparr>errors = Some fe, message = Some ''Missing Fields. Failed to Create Invoice.''\<rparr>, w)
          \<and> map_of fe ''status'' = Some ms \<and> ms \<noteq> []"
    by blast
  have update: "\<exists>fe ms. updateInvoice d ident prevState formData w =
              (\<lparr>errors = Some fe, message = Some ''Missing fields. Failed to update invoice.''\<rparr>, w)
            \<and> map_of fe ''status'' = Some ms \<and> ms \<noteq> []" if "ident \<noteq> []"
    using updateInvoice_field_error [OF createInvoiceSchema_map_of(3) m that] by blast
  from create update show ?thesis by blast
qed

theorem invalid_status_rejected_witness:
  "(\<exists>fe ms. createInvoice \<lparr>fault = None, generated_id = ''inv-2'', now = 5\<rparr>
          \<lparr>errors = None, message = None\<rparr>
          [(''customerId'', StringEntry ''cust-1''), (''amount'', StringEntry ''12''),
           (''status'', StringEntry ''Paid'')]
          \<lparr>invoices = [], issued = [], revalidated = []\<rparr> =
         (\<lparr>errors = Some fe, message = Some ''Missing Fields. Failed to Create Invoice.''\<rparr>,
          \<lparr>invoices = [], issued = [], revalidated = []\<rparr>)
        \<and> map_of fe ''status'' = Some ms \<and> ms \<noteq> [])
   \<and> (\<exists>fe ms. updateInvoice \<lparr>fault = None, generated_id = ''inv-2'', now = 5\<rparr> ''inv-1''
          \<lparr>errors = None, message = None\<rparr>
          [(''customerId'', StringEntry ''cust-1''), (''amount'', StringEntry ''12''),
           (''status'', StringEntry ''Paid'')]
          \<lparr>invoices = [], issued = [], revalidated = []\<rparr> =
         (\<lparr>errors = Some fe, message = Some ''Missing fields. Failed to update invoice.''\<rparr>,
          \<lparr>invoices = [], issued = [], revalidated = []\<rparr>)
        \<and> map_of fe ''status'' = Some ms \<and> ms \<noteq> [])"
proof -
  have h: "case formData_get
             [(''customerId'', StringEntry ''cust-1''), (''amount'', StringEntry ''12''),
              (''status'', StringEntry ''Paid'')] ''status'' of
             None \<Rightarrow> True
           | Some e \<Rightarrow> toString e \<noteq> ''pending'' \<and> toString e \<noteq> ''paid''"
    by (simp add: formData_get_def)
  have i: "''inv-1'' \<noteq> []" by simp
  from invalid_status_rejected [OF h, of _ _ _ "''inv-1''"] i show ?thesis
    by blast
qed

text \<open>
  The claim as worded fails on the message and on the empty identifier. A form with no
  status gives the message \<^verbatim>\<open>Required\<close>; the status \<^verbatim>\<open>Paid\<close> gives zod's message for a
  value outside the enumeration; neither is \<^verbatim>\<open>Please select an invoice status.\<close>, which
  the schema keeps for a value that is neither a string nor \<^verbatim>\<open>undefined\<close>, and the
  handlers pass no such value. With an empty identifier \<open>updateInvoice\<close> returns no field
  errors at all.
\<close>

theorem status_message_counterexample:
  "createInvoice \<lparr>fault = None, generated_id = ''inv-2'', now = 5\<rparr>
       \<lparr>errors = None, message = None\<rparr>
       [(''customerId'', StringEntry ''cust-1''), (''amount'', StringEntry ''12'')]
       \<lparr>invoices = [], issued = [], revalidated = []\<rparr>
     = (\<lparr>errors = Some [(''status'', [''Required''])],
         message = Some ''Missing Fields. Failed to Create Invoice.''\<rparr>,
        \<lparr>invoices = [], issued = [], revalidated = []\<rparr>)
   \<and> createInvoice \<lparr>fault = None, generated_id = ''inv-2'', now = 5\<rparr>
       \<lparr>errors = None, message = None\<rparr>
       [(''customerId'', StringEntry ''cust-1''), (''amount'', StringEntry ''12''),
        (''status'', StringEntry ''Paid'')]
       \<lparr>invoices = [], issued = [], revalidated = []\<rparr>
     = (\<lparr>errors = Some [(''status'',
           [''Invalid enum value. Expected '' @ [CHR 0x27] @ ''pending'' @ [CHR 0x27] @ '' | ''
            @ [CHR 0x27] @ ''paid'' @ [CHR 0x27] @ '', received '' @ [CHR 0x27] @ ''Paid''
            @ [CHR 0x27]])],
         message = Some ''Missing Fields. Failed to Create Invoice.''\<rparr>,
        \<lparr>invoices = [], issued = [], revalidated = []\<rparr>)
   \<and> updateInvoice \<lparr>fault = None, generated_id = ''inv-2'', now = 5\<rparr> ''''
       \<lparr>errors = None, message = None\<rparr>
       [(''customerId'', StringEntry ''cust-1''), (''amount'', StringEntry ''12''),
        (''status'', StringEntry ''Paid'')]
       \<lparr>invoices = [], issued = [], revalidated = []\<rparr>
     = (\<lparr>errors = None, message = Some ''Invoice ID is required.''\<rparr>,
        \<lparr>invoices = [], issued = [], revalidated = []\<rparr>)"
proof (intro conjI)
  show "createInvoice \<lparr>fault = None, generated_id = ''inv-2'', now = 5\<rparr>
       \<lparr>errors = None, message = None\<rparr>
       [(''customerId'', StringEntry ''cust-1''), (''amount'', StringEntry ''12'')]
       \<lparr>invoices = [], issued = [], revalidated = []\<rparr>
     = (\<lparr>errors = Some [(''status'', [''Required''])],
         message = Some ''Missing Fields. Failed to Create Invoice.''\<rparr>,
        \<lparr>invoices = [], issued = [], revalidated = []\<rparr>)"
    by code_simp
  show "createInvoice \<lparr>fault = None, generated_id = ''inv-2'', now = 5\<rparr>
       \<lparr>errors = None, message = None\<rparr>
       [(''customerId'', StringEntry ''cust-1''), (''amount'', StringEntry ''12''),
        (''status'', StringEntry ''Paid'')]
       \<lparr>invoices = [], issued = [], revalidated = []\<rparr>
     = (\<lparr>errors = Some [(''status'',
           [''Invalid enum value. Expected '' @ [CHR 0x27] @ ''pending'' @ [CHR 0x27] @ '' | ''
            @ [CHR 0x27] @ ''paid'' @ [CHR 0x27] @ '', received '' @ [CHR 0x27] @ ''Paid''
            @ [CHR 0x27]])],
         message = Some ''Missing Fields. Failed to Create Invoice.''\<rparr>,
        \<lparr>invoices = [], issued = [], revalidated = []\<rparr>)"
    by code_simp
  show "updateInvoice \<lparr>fault = None, generated_id = ''inv-2'', now = 5\<rparr> ''''
       \<lparr>errors = None, message = None\<rparr>
       [(''customerId'', StringEntry ''cust-1''), (''amount'', StringEntry ''12''),
        (''status'', StringEntry ''Paid'')]
       \<lparr>invoices = [], issued = [], revalidated = []\<rparr>
     = (\<lparr>errors = None, message = Some ''Invoice ID is required.''\<rparr>,
        \<lparr>invoices = [], issued = [], revalidated = []\<rparr>)"
    by (simp add: updateInvoice_def)
qed

section \<open>Validated input\<close>

text \<open>
  Data that passed the schema: the customer and the status are the strings of the form,
  the status one of the two of the enumeration, the amount the number that \<^verbatim>\<open>Number\<close>
  made of the form's string, neither \<open>NaN\<close> nor \<^verbatim>\<open><= 0\<close>.
\<close>

lemma validated_data:
  assumes "safeParse createInvoiceSchema (normalizeForm formData) = SafeParseSuccess data"
  shows "\<exists>ec ea es.
           formData_get formData ''customerId'' = Some ec
         \<and> formData_get formData ''amount'' = Some ea
         \<and> formData_get formData ''status'' = Some es
         \<and> property data ''customerId'' = JString (toString ec)
         \<and> property data ''amount'' = JNumber (Number (JString (toString ea)))
         \<and> property data ''status'' = JString (toString es)
         \<and> Number (JString (toString ea)) \<noteq> NaN
         \<and> \<not> js_le (Number (JString (toString ea))) (Finite 0)
         \<and> toString es \<in> {''pending'', ''paid''}"
proof -
  from z_string_Inr [OF safeParse_success [OF assms createInvoiceSchema_map_of(1)]]
  obtain ec where c: "formData_get formData ''customerId'' = Some ec"
      "property data ''customerId'' = JString (toString ec)"
    by (auto simp: property_normalizeForm split: option.splits)
  from z_coerce_number_gt_Inr [OF safeParse_success [OF assms createInvoiceSchema_map_of(2)]]
  obtain ea where a: "formData_get formData ''amount'' = Some ea"
      "property data ''amount'' = JNumber (Number (JString (toString ea)))"
      "Number (JString (toString ea)) \<noteq> NaN"
      "\<not> js_le (Number (JString (toString ea))) (Finite 0)"
    by (auto simp: property_normalizeForm split: option.splits)
  from z_enum_Inr [OF safeParse_success [OF assms createInvoiceSchema_map_of(3)]]
  obtain es where s: "formData_get formData ''status'' = Some es"
      "property data ''status'' = JString (toString es)"
      "toString es \<in> {''pending'', ''paid''}"
    by (auto simp: property_normalizeForm split: option.splits)
  from c a s show ?thesis by blast
qed

lemma issued_createInvoice:
  assumes "safeParse createInvoiceSchema (normalizeForm formData) = SafeParseSuccess data"
  shows "issued (snd (createInvoice d prevState formData w)) =
           issued w @ [INSERT (nullish (property data ''customerId''))
                         (nullish (property data ''amount''))
                         (nullish (property data ''status''))]"
  using assms
  by (simp add: createInvoice_def sql_def revalidatePath_def Let_def split: option.splits)

lemma issued_updateInvoice:
  assumes "safeParse createInvoiceSchema (normalizeForm formData) = SafeParseSuccess data"
    and "ident \<noteq> []"
  shows "issued (snd (updateInvoice d ident prevState formData w)) =
           issued w @ [UPDATE (nullish (property data ''customerId''))
                         (nullish (property data ''amount''))
                         (nullish (property data ''status'')) ident]"
  using assms
  by (simp add: updateInvoice_def updateInvoiceSchema_eq sql_def revalidatePath_def Let_def
      split: option.splits)

text \<open>The form of the example: what \<^verbatim>\<open>Number\<close> makes of \<^verbatim>\<open>49.99\<close>, and the validated data.\<close>

lemma StringToNumber_49_99:
  "StringToNumber ''49.99'' = Finite (7035467042882847 / 140737488355328)"
  by code_simp

lemma double_49_99: "double_of_rat (4999 / 100) = Finite (7035467042882847 / 140737488355328)"
  by code_simp

lemma safeParse_example:
  assumes "formData_get formData ''customerId'' = Some (StringEntry ''cust-1'')"
    and "formData_get formData ''amount'' = Some (StringEntry ''49.99'')"
    and "formData_get formData ''status'' = Some (StringEntry ''paid'')"
  shows "safeParse createInvoiceSchema (normalizeForm formData) =
           SafeParseSuccess
             [(''customerId'', JString ''cust-1''),
              (''amount'', JNumber (Finite (7035467042882847 / 140737488355328))),
              (''status'', JString ''paid'')]"
  by (simp add: safeParse_def createInvoiceSchema_eq property_normalizeForm assms
      StringToNumber_49_99 z_string_def z_coerce_number_gt_def z_enum_def Let_def)

text \<open>
  C2, as the code has it. For a form that passes validation, the amount bound into the
  \<^verbatim>\<open>INSERT\<close> of \<open>createInvoice\<close> and into the \<^verbatim>\<open>UPDATE\<close> of \<open>updateInvoice\<close> is the
  number that \<^verbatim>\<open>Number\<close> makes of the caller's amount string, as it is: the decimal
  amount, not converted to minor units.
\<close>

theorem amount_bound_as_supplied:
  assumes "safeParse createInvoiceSchema (normalizeForm formData) = SafeParseSuccess data"
  shows "\<exists>e c s.
           formData_get formData ''amount'' = Some e
         \<and> issued (snd (createInvoice d prevState formData w)) =
             issued w @ [INSERT c (JNumber (Number (JString (toString e)))) s]
         \<and> (ident \<noteq> [] \<longrightarrow>
             issued (snd (updateInvoice d ident prevState formData w)) =
               issued w @ [UPDATE c (JNumber (Number (JString (toString e)))) s ident])"
proof -
  from validated_data [OF assms] obtain ec ea es where
    v: "formData_get formData ''amount'' = Some ea"
      "property data ''customerId'' = JString (toString ec)"
      "property data ''amount'' = JNumber (Number (JString (toString ea)))"
      "property data ''status'' = JString (toString es)"
    by blast
  have "issued (snd (createInvoice d prevState formData w)) =
          issued w @ [INSERT (JString (toString ec)) (JNumber (Number (JString (toString ea))))
                        (JString (toString es))]"
    by (simp add: issued_createInvoice [OF assms] v)
  moreover have "issued (snd (updateInvoice d ident prevState formData w)) =
          issued w @ [UPDATE (JString (toString ec)) (JNumber (Number (JString (toString ea))))
                        (JString (toString es)) ident]" if "ident \<noteq> []"
    by (simp add: issued_updateInvoice [OF assms that] v)
  ultimately show ?thesis using v(1) by blast
qed

theorem amount_bound_as_supplied_witness:
  "safeParse createInvoiceSchema
     (normalizeForm [(''customerId'', StringEntry ''cust-1''), (''amount'', StringEntry ''49.99''),
                     (''status'', StringEntry ''paid'')]) =
     SafeParseSuccess
       [(''customerId'', JString ''cust-1''),
        (''amount'', JNumber (Finite (7035467042882847 / 140737488355328))),
        (''status'', JString ''paid'')]
   \<and> (\<exists>e c s.
         formData_get [(''customerId'', StringEntry ''cust-1''), (''amount'', StringEntry ''49.99''),
                       (''status'', StringEntry ''paid'')] ''amount'' = Some e
       \<and> issued (snd (createInvoice \<lparr>fault = None, generated_id = ''inv-2'', now = 5\<rparr>
            \<lparr>errors = None, message = None\<rparr>
            [(''customerId'', StringEntry ''cust-1''), (''amount'', StringEntry ''49.99''),
             (''status'', StringEntry ''paid'')]
            \<lparr>invoices = [], issued = [], revalidated = []\<rparr>)) =
           [INSERT c (JNumber (Number (JString (toString e)))) s]
       \<and> issued (snd (updateInvoice \<lparr>fault = None, generated_id = ''inv-2'', now = 5\<rparr> ''inv-1''
            \<lparr>errors = None, message = None\<rparr>
            [(''customerId'', StringEntry ''cust-1''), (''amount'', StringEntry ''49.99''),
             (''status'', StringEntry ''paid'')]
            \<lparr>invoices = [], issued = [], revalidated = []\<rparr>)) =
           [UPDATE c (JNumber (Number (JString (toString e)))) s ''inv-1''])"
proof -
  have h: "safeParse createInvoiceSchema
     (normalizeForm [(''customerId'', StringEntry ''cust-1''), (''amount'', StringEntry ''49.99''),
                     (''status'', StringEntry ''paid'')]) =
     SafeParseSuccess
       [(''customerId'', JString ''cust-1''),
        (''amount'', JNumber (Finite (7035467042882847 / 140737488355328))),
        (''status'', JString ''paid'')]"
    by (rule safeParse_example) (simp_all add: formData_get_def)
  have i: "''inv-1'' \<noteq> []" by simp
  from amount_bound_as_supplied [OF h,
      of "\<lparr>fault = None, generated_id = ''inv-2'', now = 5\<rparr>" "\<lparr>errors = None, message = None\<rparr>"
         "\<lparr>invoices = [], issued = [], revalidated = []\<rparr>" "''inv-1''"] h i
  show ?thesis by simp
qed

text \<open>
  The claim as worded fails: for the amount \<^verbatim>\<open>49.99\<close> the \<^verbatim>\<open>INSERT\<close> binds the number
  49.99 itself (the binary64 value next to it), which lies between 49 and 50 and is not
  the 4999 minor units of the claim.
\<close>

theorem amount_minor_units_counterexample:
  "issued (snd (createInvoice \<lparr>fault = None, generated_id = ''inv-2'', now = 5\<rparr>
       \<lparr>errors = None, message = None\<rparr>
       [(''customerId'', StringEntry ''cust-1''), (''amount'', StringEntry ''49.99''),
        (''status'', StringEntry ''paid'')]
       \<lparr>invoices = [], issued = [], revalidated = []\<rparr>)) =
     [INSERT (JString ''cust-1'') (JNumber (Finite (7035467042882847 / 140737488355328)))
        (JString ''paid'')]
   \<and> JNumber (Finite (7035467042882847 / 140737488355328)) \<noteq> JNumber (Finite 4999)
   \<and> (49 :: rat) < 7035467042882847 / 140737488355328
   \<and> (7035467042882847 / 140737488355328 :: rat) < 50"
proof (intro conjI)
  have "safeParse createInvoiceSchema
     (normalizeForm [(''customerId'', StringEntry ''cust-1''), (''amount'', StringEntry ''49.99''),
                     (''status'', StringEntry ''paid'')]) =
     SafeParseSuccess
       [(''customerId'', JString ''cust-1''),
        (''amount'', JNumber (Finite (7035467042882847 / 140737488355328))),
        (''status'', JString ''paid'')]"
    by (rule safeParse_example) (simp_all add: formData_get_def)
  then show "issued (snd (createInvoice \<lparr>fault = None, generated_id = ''inv-2'', now = 5\<rparr>
       \<lparr>errors = None, message = None\<rparr>
       [(''customerId'', StringEntry ''cust-1''), (''amount'', StringEntry ''49.99''),
        (''status'', StringEntry ''paid'')]
       \<lparr>invoices = [], issued = [], revalidated = []\<rparr>)) =
     [INSERT (JString ''cust-1'') (JNumber (Finite (7035467042882847 / 140737488355328)))
        (JString ''paid'')]"
    by (simp add: issued_createInvoice property_def)
qed simp_all

section \<open>The update statement\<close>

lemma invoices_updateInvoice:
  assumes "safeParse createInvoiceSchema (normalizeForm formData) = SafeParseSuccess data"
    and "ident \<noteq> []"
    and "fault d = None"
  shows "invoices (snd (updateInvoice d ident prevState formData w)) =
           exec d (UPDATE (nullish (property data ''customerId''))
                     (nullish (property data ''amount''))
                     (nullish (property data ''status'')) ident) (invoices w)"
  using assms
  by (simp add: updateInvoice_def updateInvoiceSchema_eq sql_def revalidatePath_def Let_def)




text \<open>
  C4. When \<open>updateInvoice\<close> is called with an identifier and its form passes validation,
  the three validated values are two strings and a number, none of them \<^verbatim>\<open>undefined\<close> or
  \<^verbatim>\<open>null\<close>; they are the parameters of the \<^verbatim>\<open>UPDATE\<close>, and when the driver executes
  it every row of the identifier has its three columns overwritten by them: no column
  keeps its stored value.
\<close>

theorem update_overwrites_all_columns:
  assumes "ident \<noteq> []"
    and "safeParse updateInvoiceSchema (normalizeForm formData) = SafeParseSuccess data"
  shows "\<exists>c a s.
           property data ''customerId'' = JString c
         \<and> property data ''amount'' = JNumber a
         \<and> property data ''status'' = JString s
         \<and> issued (snd (updateInvoice d ident prevState formData w)) =
             issued w @ [UPDATE (JString c) (JNumber a) (JString s) ident]
         \<and> (fault d = None \<longrightarrow>
             invoices (snd (updateInvoice d ident prevState formData w)) =
               map (\<lambda>r. if inv_id r = ident
                        then r\<lparr>customer_id := JString c, amount := JNumber a,
                               status := JString s\<rparr>
                        else r) (invoices w))"
proof -
  from assms(2) have ok:
    "safeParse createInvoiceSchema (normalizeForm formData) = SafeParseSuccess data"
    by (simp add: updateInvoiceSchema_eq)
  from validated_data [OF ok] obtain ec ea es where
    v: "property data ''customerId'' = JString (toString ec)"
      "property data ''amount'' = JNumber (Number (JString (toString ea)))"
      "property data ''status'' = JString (toString es)"
    by blast
  have st: "issued (snd (updateInvoice d ident prevState formData w)) =
          issued w @ [UPDATE (JString (toString ec)) (JNumber (Number (JString (toString ea))))
                        (JString (toString es)) ident]"
    by (simp add: issued_updateInvoice [OF ok assms(1)] v)
  have rows: "invoices (snd (updateInvoice d ident prevState formData w)) =
               map (\<lambda>r. if inv_id r = ident
                        then r\<lparr>customer_id := JString (toString ec),
                               amount := JNumber (Number (JString (toString ea))),
                               status := JString (toString es)\<rparr>
                        else r) (invoices w)" if "fault d = None"
    by (simp add: invoices_updateInvoice [OF ok assms(1) that] v)
  show ?thesis
    by (intro exI [where x = "toString ec"] exI [where x = "Number (JString (toString ea))"]
        exI [where x = "toString es"] conjI impI v st rows)
qed

theorem update_overwrites_all_columns_witness:
  "\<exists>c a s.
     property [(''customerId'', JString ''cust-1''),
               (''amount'', JNumber (Finite (7035467042882847 / 140737488355328))),
               (''status'', JString ''paid'')] ''customerId'' = JString c
   \<and> property [(''customerId'', JString ''cust-1''),
               (''amount'', JNumber (Finite (7035467042882847 / 140737488355328))),
               (''status'', JString ''paid'')] ''amount'' = JNumber a
   \<and> property [(''customerId'', JString ''cust-1''),
               (''amount'', JNumber (Finite (7035467042882847 / 140737488355328))),
               (''status'', JString ''paid'')] ''status'' = JString s
   \<and> issued (snd (updateInvoice \<lparr>fault = None, generated_id = ''inv-3'', now = 5\<rparr> ''inv-1''
        \<lparr>errors = None, message = None\<rparr>
        [(''customerId'', StringEntry ''cust-1''), (''amount'', StringEntry ''49.99''),
         (''status'', StringEntry ''paid'')]
        \<lparr>invoices =
           [\<lparr>inv_id = ''inv-1'', customer_id = JString ''cust-0'', amount = JNumber (Finite 3),
             status = JString ''pending'', date = 1\<rparr>],
         issued = [], revalidated = []\<rparr>)) =
       [UPDATE (JString c) (JNumber a) (JString s) ''inv-1'']
   \<and> invoices (snd (updateInvoice \<lparr>fault = None, generated_id = ''inv-3'', now = 5\<rparr> ''inv-1''
        \<lparr>errors = None, message = None\<rparr>
        [(''customerId'', StringEntry ''cust-1''), (''amount'', StringEntry ''49.99''),
         (''status'', StringEntry ''paid'')]
        \<lparr>invoices =
           [\<lparr>inv_id = ''inv-1'', customer_id = JString ''cust-0'', amount = JNumber (Finite 3),
             status = JString ''pending'', date = 1\<rparr>],
         issued = [], revalidated = []\<rparr>)) =
       [\<lparr>inv_id = ''inv-1'', customer_id = JString c, amount = JNumber a,
         status = JString s, date = 1\<rparr>]"
proof -
  have h: "safeParse updateInvoiceSchema
     (normalizeForm [(''customerId'', StringEntry ''cust-1''), (''amount'', StringEntry ''49.99''),
                     (''status'', StringEntry ''paid'')]) =
     SafeParseSuccess
       [(''customerId'', JString ''cust-1''),
        (''amount'', JNumber (Finite (7035467042882847 / 140737488355328))),
        (''status'', JString ''paid'')]"
    unfolding updateInvoiceSchema_eq
    by (rule safeParse_example) (simp_all add: formData_get_def)
  have i: "''inv-1'' \<noteq> []" by simp
  from update_overwrites_all_columns [OF i h,
      of "\<lparr>fault = None, generated_id = ''inv-3'', now = 5\<rparr>" "\<lparr>errors = None, message = None\<rparr>"
         "\<lparr>invoices =
           [\<lparr>inv_id = ''inv-1'', customer_id = JString ''cust-0'', amount = JNumber (Finite 3),
             status = JString ''pending'', date = 1\<rparr>],
         issued = [], revalidated = []\<rparr>"]
  show ?thesis by simp
qed

section \<open>Failures of the driver\<close>

lemma sql_fault: "fault d = Some e \<Longrightarrow> sql d st w = (Inl e, w\<lparr>issued := issued w @ [st]\<rparr>)"
  by (simp add: sql_def Let_def)

text \<open>
  C6. When the driver throws on the statement of a handler, the handler returns a
  result with no field errors whose message is its own prefix followed by the message of
  what was thrown; the statement was handed over, nothing else changed. The handlers
  are total functions to results: what the driver throws never leaves them.
\<close>

theorem driver_failure_reported:
  assumes "fault d = Some e"
  shows "(safeParse createInvoiceSchema (normalizeForm formData) = SafeParseSuccess data \<longrightarrow>
            createInvoice d prevState formData w =
              (\<lparr>errors = None,
                message = Some (''Error creating invoice: '' @ error_message e)\<rparr>,
               w\<lparr>issued := issued w @
                   [INSERT (nullish (property data ''customerId''))
                      (nullish (property data ''amount''))
                      (nullish (property data ''status''))]\<rparr>))
       \<and> (ident \<noteq> [] \<and>
          safeParse updateInvoiceSchema (normalizeForm formData) = SafeParseSuccess data \<longrightarrow>
            updateInvoice d ident prevState formData w =
              (\<lparr>errors = None,
                message = Some (''Error updating invoice: '' @ error_message e)\<rparr>,
               w\<lparr>issued := issued w @
                   [UPDATE (nullish (property data ''customerId''))
                      (nullish (property data ''amount''))
                      (nullish (property data ''status'')) ident]\<rparr>))
       \<and> (ident \<noteq> [] \<longrightarrow>
            deleteInvoice d ident w =
              (\<lparr>errors = None,
                message = Some (''Error deleting invoice: '' @ error_message e)\<rparr>,
               w\<lparr>issued := issued w @ [DELETE ident]\<rparr>))"
  by (simp add: createInvoice_def updateInvoice_def deleteInvoice_def sql_fault [OF assms])

theorem driver_failure_reported_witness:
  "createInvoice \<lparr>fault = Some (Error ''connection refused''), generated_id = ''inv-3'', now = 5\<rparr>
     \<lparr>errors = None, message = None\<rparr>
     [(''customerId'', StringEntry ''cust-1''), (''amount'', StringEntry ''49.99''),
      (''status'', StringEntry ''paid'')]
     \<lparr>invoices = [], issued = [], revalidated = []\<rparr> =
     (\<lparr>errors = None, message = Some ''Error creating invoice: connection refused''\<rparr>,
      \<lparr>invoices = [],
       issued = [INSERT (JString ''cust-1'')
                   (JNumber (Finite (7035467042882847 / 140737488355328))) (JString ''paid'')],
       revalidated = []\<rparr>)
   \<and> updateInvoice \<lparr>fault = Some (Error ''connection refused''), generated_id = ''inv-3'', now = 5\<rparr>
       ''inv-1'' \<lparr>errors = None, message = None\<rparr>
     [(''customerId'', StringEntry ''cust-1''), (''amount'', StringEntry ''49.99''),
      (''status'', StringEntry ''paid'')]
     \<lparr>invoices = [], issued = [], revalidated = []\<rparr> =
     (\<lparr>errors = None, message = Some ''Error updating invoice: connection refused''\<rparr>,
      \<lparr>invoices = [],
       issued = [UPDATE (JString ''cust-1'')
                   (JNumber (Finite (7035467042882847 / 140737488355328))) (JString ''paid'')
                   ''inv-1''],
       revalidated = []\<rparr>)
   \<and> deleteInvoice \<lparr>fault = Some (Error ''connection refused''), generated_id = ''inv-3'', now = 5\<rparr>
       ''inv-1'' \<lparr>invoices = [], issued = [], revalidated = []\<rparr> =
     (\<lparr>errors = None, message = Some ''Error deleting invoice: connection refused''\<rparr>,
      \<lparr>invoices = [], issued = [DELETE ''inv-1''], revalidated = []\<rparr>)"
proof -
  have f: "fault \<lparr>fault = Some (Error ''connection refused''), generated_id = ''inv-3'', now = 5\<rparr>
             = Some (Error ''connection refused'')"
    by simp
  have h: "safeParse createInvoiceSchema
     (normalizeForm [(''customerId'', StringEntry ''cust-1''), (''amount'', StringEntry ''49.99''),
                     (''status'', StringEntry ''paid'')]) =
     SafeParseSuccess
       [(''customerId'', JString ''cust-1''),
        (''amount'', JNumber (Finite (7035467042882847 / 140737488355328))),
        (''status'', JString ''paid'')]"
    by (rule safeParse_example) (simp_all add: formData_get_def)
  have i: "''inv-1'' \<noteq> []" by simp
  note t = driver_failure_reported [OF f,
      of "[(''customerId'', StringEntry ''cust-1''), (''amount'', StringEntry ''49.99''),
           (''status'', StringEntry ''paid'')]"
         "[(''customerId'', JString ''cust-1''),
           (''amount'', JNumber (Finite (7035467042882847 / 140737488355328))),
           (''status'', JString ''paid'')]"
         "\<lparr>errors = None, message = None\<rparr>"
         "\<lparr>invoices = [], issued = [], revalidated = []\<rparr>" "''inv-1''"]
  from t h i show ?thesis
    by (simp add: updateInvoiceSchema_eq property_def)
qed

section \<open>A successful creation\<close>

text \<open>
  C7. For a form whose entries are the customer \<^verbatim>\<open>cust-1\<close>, the amount \<^verbatim>\<open>49.99\<close> and
  the status \<^verbatim>\<open>paid\<close>, and a driver that executes the statement, \<open>createInvoice\<close> hands
  over one statement, the \<^verbatim>\<open>INSERT\<close> with the parameters \<^verbatim>\<open>cust-1\<close>, the number 49.99
  and \<^verbatim>\<open>paid\<close>; the table gains the row with these values, the identifier generated
  by the storage and the date of its clock; the path \<^verbatim>\<open>/invoices\<close> is revalidated; the
  result is the message \<^verbatim>\<open>Invoice created successfully\<close> alone.
\<close>

theorem create_success_example:
  assumes "fault d = None"
    and "formData_get formData ''customerId'' = Some (StringEntry ''cust-1'')"
    and "formData_get formData ''amount'' = Some (StringEntry ''49.99'')"
    and "formData_get formData ''status'' = Some (StringEntry ''paid'')"
  shows "createInvoice d prevState formData w =
           (\<lparr>errors = None, message = Some ''Invoice created successfully''\<rparr>,
            \<lparr>invoices = invoices w @
               [\<lparr>inv_id = generated_id d, customer_id = JString ''cust-1'',
                 amount = JNumber (double_of_rat (4999 / 100)), status = JString ''paid'',
                 date = now d\<rparr>],
             issued = issued w @
               [INSERT (JString ''cust-1'') (JNumber (double_of_rat (4999 / 100)))
                  (JString ''paid'')],
             revalidated = revalidated w @ [''/invoices'']\<rparr>)"
  by (cases w)
    (simp add: createInvoice_def safeParse_example [OF assms(2-4)] property_def sql_def
      assms(1) revalidatePath_def double_49_99 Let_def)

theorem create_success_example_witness:
  "createInvoice \<lparr>fault = None, generated_id = ''inv-2'', now = 5\<rparr>
     \<lparr>errors = None, message = None\<rparr>
     [(''customerId'', StringEntry ''cust-1''), (''amount'', StringEntry ''49.99''),
      (''status'', StringEntry ''paid'')]
     \<lparr>invoices =
        [\<lparr>inv_id = ''inv-1'', customer_id = JString ''cust-0'', amount = JNumber (Finite 3),
          status = JString ''pending'', date = 1\<rparr>],
      issued = [], revalidated = []\<rparr> =
     (\<lparr>errors = None, message = Some ''Invoice created successfully''\<rparr>,
      \<lparr>invoices =
         [\<lparr>inv_id = ''inv-1'', customer_id = JString ''cust-0'', amount = JNumber (Finite 3),
           status = JString ''pending'', date = 1\<rparr>,
          \<lparr>inv_id = ''inv-2'', customer_id = JString ''cust-1'',
           amount = JNumber (Finite (7035467042882847 / 140737488355328)),
           status = JString ''paid'', date = 5\<rparr>],
       issued = [INSERT (JString ''cust-1'')
                   (JNumber (Finite (7035467042882847 / 140737488355328))) (JString ''paid'')],
       revalidated = [''/invoices'']\<rparr>)"
proof -
  have f: "fault \<lparr>fault = None, generated_id = ''inv-2'', now = 5\<rparr> = None" by simp
  have g: "formData_get [(''customerId'', StringEntry ''cust-1''), (''amount'', StringEntry ''49.99''),
      (''status'', StringEntry ''paid'')] ''customerId'' = Some (StringEntry ''cust-1'')"
    "formData_get [(''customerId'', StringEntry ''cust-1''), (''amount'', StringEntry ''49.99''),
      (''status'', StringEntry ''paid'')] ''amount'' = Some (StringEntry ''49.99'')"
    "formData_get [(''customerId'', StringEntry ''cust-1''), (''amount'', StringEntry ''49.99''),
      (''status'', StringEntry ''paid'')] ''status'' = Some (StringEntry ''paid'')"
    by (simp_all add: formData_get_def)
  show ?thesis
    by (simp add: create_success_example [OF f g] double_49_99)
qed

end
